theory Spec2Isabelle
  imports Main
begin

section \<open>Python values\<close>

text \<open>
  The resources of a snakemake job are a dictionary from strings to scalars. A scalar is
  \<^verbatim>\<open>None\<close>, a boolean, an integer or a string; \<open>truthy\<close> is Python's truth test on
  them, \<open>py_or\<close> is the operator \<^verbatim>\<open>a or b\<close> and \<open>dict_get\<close> is
  \<^verbatim>\<open>d.get(key, default)\<close>.
\<close>

datatype pyval = PNone | PBool bool | PInt int | PStr string

fun truthy :: "pyval \<Rightarrow> bool" where
  "truthy PNone = False"
| "truthy (PBool b) = b"
| "truthy (PInt i) = (i \<noteq> 0)"
| "truthy (PStr s) = (s \<noteq> [])"

definition py_or :: "pyval \<Rightarrow> pyval \<Rightarrow> pyval" where
  "py_or a b = (if truthy a then a else b)"

definition dict_get :: "(string \<rightharpoonup> pyval) \<Rightarrow> string \<Rightarrow> pyval \<Rightarrow> pyval" where
  "dict_get d key dflt = (case d key of None \<Rightarrow> dflt | Some v \<Rightarrow> v)"

text \<open>
  The counts of a native job status are optional integers: \<open>int_truthy\<close> is the truth
  test \<^verbatim>\<open>if count:\<close> on one of them (absent and zero are both false).
\<close>

fun int_truthy :: "int option \<Rightarrow> bool" where
  "int_truthy None = False"
| "int_truthy (Some n) = (n \<noteq> 0)"

text \<open>\<^verbatim>\<open>str(x)\<close> inside an f-string, for an optional string: \<^verbatim>\<open>None\<close> prints as its name.\<close>

fun py_str :: "string option \<Rightarrow> string" where
  "py_str None = ''None''"
| "py_str (Some s) = s"

section \<open>Strings: decimal numerals, replace and join\<close>

definition digit_char :: "nat \<Rightarrow> char" where
  "digit_char d = ''0123456789'' ! d"

fun str_nat :: "nat \<Rightarrow> string" where
  "str_nat n = (if n < 10 then [digit_char n] else str_nat (n div 10) @ [digit_char (n mod 10)])"

declare str_nat.simps [simp del]

text \<open>\<^verbatim>\<open>"%s" % i\<close> for an integer \<open>i\<close>: its decimal numeral, with a sign when negative.\<close>

definition str_int :: "int \<Rightarrow> string" where
  "str_int i = (if i < 0 then CHR ''-'' # str_nat (nat (- i)) else str_nat (nat i))"

text \<open>
  \<^verbatim>\<open>s.replace(old, new)\<close>: every non-overlapping occurrence of \<open>old\<close>, found from the
  left, is replaced by \<open>new\<close>. For an empty \<open>old\<close> Python puts \<open>new\<close> before every
  character and at the end.
\<close>

function py_replace :: "string \<Rightarrow> string \<Rightarrow> string \<Rightarrow> string" where
  "py_replace old new s =
     (if old = [] then new @ concat (map (\<lambda>c. c # new) s)
      else if s = [] then []
      else if take (length old) s = old then new @ py_replace old new (drop (length old) s)
      else hd s # py_replace old new (tl s))"
  by pat_completeness auto
termination
  by (relation "measure (\<lambda>(old, new, s). length s)") auto

declare py_replace.simps [simp del]

text \<open>\<^verbatim>\<open>sep.join(xs)\<close>.\<close>

fun join :: "string \<Rightarrow> string list \<Rightarrow> string" where
  "join sep [] = []"
| "join sep [x] = x"
| "join sep (x # y # ys) = x @ sep @ join sep (y # ys)"

section \<open>The task, the configuration and the handle\<close>

text \<open>
  The job of the workflow engine (\<^verbatim>\<open>self.job\<close>: the source reads its \<^verbatim>\<open>name\<close>,
  \<^verbatim>\<open>jobid\<close> and \<^verbatim>\<open>resources\<close>), the executor arguments (\<^verbatim>\<open>namespace\<close>,
  \<^verbatim>\<open>queue_name\<close>) and the object of class \<^verbatim>\<open>KubernetesObject\<close>, whose
  \<^verbatim>\<open>__init__\<close> sets \<^verbatim>\<open>jobname\<close> to \<^verbatim>\<open>None\<close>.
\<close>

record Job =
  name :: string
  jobid :: int
  resources :: "string \<rightharpoonup> pyval"

record ExecutorArgs =
  namespace :: string
  queue_name :: string

record KubernetesObject =
  job :: Job
  executor_args :: ExecutorArgs
  jobname :: "string option"

definition init :: "Job \<Rightarrow> ExecutorArgs \<Rightarrow> KubernetesObject" where
  "init j ea = \<lparr>job = j, executor_args = ea, jobname = None\<rparr>"

datatype JobStatus = ACTIVE | FAILED | READY | SUCCEEDED | UNKNOWN

fun JobStatus_value :: "JobStatus \<Rightarrow> int" where
  "JobStatus_value ACTIVE = 1"
| "JobStatus_value FAILED = 3"
| "JobStatus_value READY = 2"
| "JobStatus_value SUCCEEDED = 4"
| "JobStatus_value UNKNOWN = 5"

text \<open>
  \<^verbatim>\<open>jobprefix\<close>:
  \<^verbatim>\<open>("snakejob-%s-%s" % (self.job.name, self.job.jobid)).replace("_", "-")\<close>.
\<close>

definition jobprefix :: "KubernetesObject \<Rightarrow> string" where
  "jobprefix self =
     py_replace ''_'' ''-'' (''snakejob-'' @ name (job self) @ ''-'' @ str_int (jobid (job self)))"

section \<open>The objects of the cluster API\<close>

text \<open>
  The objects the source builds and reads, with the fields it gives or reads. A Python
  dictionary literal is an association list; an attribute that may be \<^verbatim>\<open>None\<close> is
  an option.
\<close>

record V1ObjectMeta =
  generate_name :: "string option"
  labels :: "(string \<times> string) list option"
  meta_namespace :: "string option"
  meta_name :: "string option"

record V1Container =
  container_image :: string
  container_name :: string
  container_command :: "string list"
  container_args :: "string list"
  container_working_dir :: "string option"
  container_env :: "(string \<times> string) list list"
  container_resources :: "(string \<times> (string \<times> pyval) list) list"
  active_deadline_seconds :: "pyval option"

record PodSpec =
  containers :: "V1Container list"
  restartPolicy :: string

record PodTemplate =
  template_spec :: PodSpec

record V1JobSpec =
  parallelism :: pyval
  completions :: "int option"
  suspend :: "bool option"
  pod_template :: PodTemplate

record V1JobStatus =
  failed :: "int option"
  active :: "int option"
  ready :: "int option"
  succeeded :: "int option"

record V1Job =
  api_version :: string
  kind :: string
  metadata :: V1ObjectMeta
  spec :: V1JobSpec
  status :: "V1JobStatus option"

record MiniClusterContainer =
  mc_command :: string
  mc_environment :: "(string \<times> string) list option"
  mc_image :: string
  mc_resources :: "(string \<times> (string \<times> pyval) list) list"

record MiniClusterSpec =
  job_labels :: "(string \<times> string) list"
  mc_containers :: "MiniClusterContainer list"
  mc_working_dir :: "string option"
  mc_size :: pyval
  mc_tasks :: pyval
  mc_logging :: "(string \<times> bool) list"
  mc_deadline :: "pyval option"

record MiniCluster =
  mc_kind :: string
  mc_api_version :: string
  mc_metadata :: V1ObjectMeta
  mc_spec :: MiniClusterSpec

record V1Pod =
  pod_metadata :: V1ObjectMeta

section \<open>The cluster: requests, answers, files\<close>

text \<open>
  The kubernetes client is outside the repository. Its answers are a parameter (a record
  of functions from the arguments of a call to an error or a result), and every request
  the source issues is appended to the world's list of requests, with the debug lines
  logged and the files written. An exception of the source is the left summand; the
  world it leaves behind is returned beside it.

  The typed APIs (\<^verbatim>\<open>BatchV1Api\<close>, \<^verbatim>\<open>CoreV1Api\<close>) answer with objects of the
  client's classes. The generic \<^verbatim>\<open>CustomObjectsApi\<close> answers with the deserialised
  body of the response as it is: a value built from Python's \<^verbatim>\<open>dict\<close>,
  \<^verbatim>\<open>list\<close>, \<^verbatim>\<open>str\<close>, \<^verbatim>\<open>int\<close>, \<^verbatim>\<open>bool\<close> and \<^verbatim>\<open>None\<close>.
\<close>

datatype error = ApiException string | AttributeError string

datatype json =
    JNull
  | JBool bool
  | JInt int
  | JStr string
  | JList "json list"
  | JDict "(string \<times> json) list"

text \<open>
  \<^verbatim>\<open>value.attr\<close> on such a value, for an attribute that is not a method of the
  builtin types (the source reads \<^verbatim>\<open>metadata\<close> and \<^verbatim>\<open>name\<close>): a \<^verbatim>\<open>dict\<close>
  keeps its entries under keys, not attributes, so the read raises.
\<close>

fun json_getattr :: "json \<Rightarrow> string \<Rightarrow> error + json" where
  "json_getattr v attr = Inl (AttributeError attr)"

fun json_str :: "json \<Rightarrow> string option" where
  "json_str (JStr s) = Some s"
| "json_str v = None"

datatype request =
    Create_namespaced_job string V1Job
  | Create_namespaced_custom_object string string string string MiniCluster
  | Read_namespaced_job "string option" string
  | List_namespaced_pod string string
  | Read_namespaced_pod_log "string option" string

record cluster_api =
  create_namespaced_job :: "string \<Rightarrow> V1Job \<Rightarrow> error + V1Job"
  create_namespaced_custom_object ::
    "string \<Rightarrow> string \<Rightarrow> string \<Rightarrow> string \<Rightarrow> MiniCluster \<Rightarrow> error + json"
  read_namespaced_job :: "string option \<Rightarrow> string \<Rightarrow> error + V1Job"
  list_namespaced_pod :: "string \<Rightarrow> string \<Rightarrow> error + V1Pod list"
  read_namespaced_pod_log :: "string option \<Rightarrow> string \<Rightarrow> error + string"

record world =
  requests :: "request list"
  debug_log :: "string list"
  files :: "string \<rightharpoonup> string"

definition send :: "request \<Rightarrow> world \<Rightarrow> world" where
  "send r w = w\<lparr>requests := requests w @ [r]\<rparr>"

section \<open>BatchJob.status\<close>

text \<open>
  The mapping of the lines after the read call, on the job the cluster answered with. The
  attribute \<^verbatim>\<open>job.status\<close> of a job that has none is \<^verbatim>\<open>None\<close>, and reading
  \<^verbatim>\<open>failed\<close> from it raises.
\<close>

definition status_of_job :: "V1Job \<Rightarrow> error + JobStatus" where
  "status_of_job j =
     (case status j of
        None \<Rightarrow> Inl (AttributeError ''failed'')
      | Some st \<Rightarrow>
          if failed st \<noteq> Some 0 then Inr FAILED
          else if int_truthy (active st) then Inr ACTIVE
          else if int_truthy (ready st) then Inr READY
          else (let succeeded' = succeeded st in
                if int_truthy succeeded' \<and> succeeded' = completions (spec j)
                then Inr SUCCEEDED else Inr UNKNOWN))"

definition BatchJob_status ::
  "cluster_api \<Rightarrow> KubernetesObject \<Rightarrow> world \<Rightarrow> (error + JobStatus) \<times> world" where
  "BatchJob_status api self w =
     (let w' = send (Read_namespaced_job (jobname self) (namespace (executor_args self))) w in
      case read_namespaced_job api (jobname self) (namespace (executor_args self)) of
        Inl e \<Rightarrow> (Inl e, w')
      | Inr j \<Rightarrow> (status_of_job j, w'))"

section \<open>BatchJob.submit and BatchJob.write_log\<close>

definition BatchJob_submit ::
  "cluster_api \<Rightarrow> KubernetesObject \<Rightarrow> V1Job \<Rightarrow> world
     \<Rightarrow> (error + V1Job) \<times> KubernetesObject \<times> world" where
  "BatchJob_submit api self job_obj w =
     (let w' = send (Create_namespaced_job (namespace (executor_args self)) job_obj) w in
      case create_namespaced_job api (namespace (executor_args self)) job_obj of
        Inl e \<Rightarrow> (Inl e, self, w')
      | Inr result \<Rightarrow> (Inr result, self\<lparr>jobname := meta_name (metadata result)\<rparr>, w'))"

text \<open>
  Modelled from the spec: \<^verbatim>\<open>utils.write_file(log, logfile)\<close>, a helper of the
  repository that is not among its source files; the spec says it persists the text to
  the path.
\<close>

definition write_file :: "string \<Rightarrow> string \<Rightarrow> world \<Rightarrow> world" where
  "write_file content filename w = w\<lparr>files := (files w)(filename \<mapsto> content)\<rparr>"

definition logger_debug :: "string \<Rightarrow> world \<Rightarrow> world" where
  "logger_debug msg w = w\<lparr>debug_log := debug_log w @ [msg]\<rparr>"

text \<open>The loop over \<^verbatim>\<open>pods.items\<close>: a failed log read ends it with what was written so far.\<close>

fun write_pod_logs ::
  "cluster_api \<Rightarrow> KubernetesObject \<Rightarrow> string \<Rightarrow> V1Pod list \<Rightarrow> world \<Rightarrow> (error + unit) \<times> world" where
  "write_pod_logs api self logprefix [] w = (Inr (), w)"
| "write_pod_logs api self logprefix (pod # pods) w =
     (let w1 = send (Read_namespaced_pod_log (meta_name (pod_metadata pod))
                       (namespace (executor_args self))) w in
      case read_namespaced_pod_log api (meta_name (pod_metadata pod))
             (namespace (executor_args self)) of
        Inl e \<Rightarrow> (Inl e, w1)
      | Inr log \<Rightarrow>
          (let logfile = logprefix @ ''-'' @ py_str (meta_name (pod_metadata pod)) @ ''.txt'';
               w2 = logger_debug (''Writing output to '' @ logfile) w1;
               w3 = write_file log logfile w2
           in write_pod_logs api self logprefix pods w3))"

definition BatchJob_write_log ::
  "cluster_api \<Rightarrow> KubernetesObject \<Rightarrow> string \<Rightarrow> world \<Rightarrow> (error + unit) \<times> world" where
  "BatchJob_write_log api self logprefix w =
     (let label_selector = ''job-name='' @ py_str (jobname self);
          w' = send (List_namespaced_pod (namespace (executor_args self)) label_selector) w in
      case list_namespaced_pod api (namespace (executor_args self)) label_selector of
        Inl e \<Rightarrow> (Inl e, w')
      | Inr pods \<Rightarrow> write_pod_logs api self logprefix pods w')"

section \<open>BatchJob.generate\<close>

text \<open>
  The parameter \<open>deadline\<close> is rebound in the first line of the body. The keyword
  arguments the source leaves out of a constructor are \<^verbatim>\<open>None\<close>.
\<close>

definition BatchJob_generate ::
  "KubernetesObject \<Rightarrow> string \<Rightarrow> string \<Rightarrow> string list \<Rightarrow> string option \<Rightarrow> pyval
     \<Rightarrow> (string \<times> string) list option \<Rightarrow> V1Job" where
  "BatchJob_generate self image' command args working_dir deadline environment =
     (let deadline = dict_get (resources (job self)) ''runtime'' PNone;
          nodes = dict_get (resources (job self)) ''_nodes'' PNone;
          cores = dict_get (resources (job self)) ''_cores'' PNone;
          memory = py_or (dict_get (resources (job self)) ''kueue.memory'' (PStr ''200Mi''))
                     (PStr ''200Mi'');
          metadata' = \<lparr>generate_name = Some (jobprefix self),
                       labels = Some [(''kueue.x-k8s.io/queue-name'',
                                       queue_name (executor_args self))],
                       meta_namespace = None, meta_name = None\<rparr>;
          environment = (case environment of None \<Rightarrow> [] | Some e \<Rightarrow> e);
          environ = map (\<lambda>(key, value). [(''name'', key), (''value'', value)]) environment;
          container = \<lparr>container_image = image',
                       container_name = jobprefix self,
                       container_command = [command],
                       container_args = args,
                       container_working_dir = working_dir,
                       container_env = environ,
                       container_resources =
                         [(''requests'', [(''cpu'', cores), (''memory'', memory)])],
                       active_deadline_seconds = None\<rparr>;
          container = (if truthy deadline
                       then container\<lparr>active_deadline_seconds := Some deadline\<rparr>
                       else container);
          template = \<lparr>template_spec = \<lparr>containers = [container], restartPolicy = ''Never''\<rparr>\<rparr>
      in \<lparr>api_version = ''batch/v1'',
          kind = ''Job'',
          metadata = metadata',
          spec = \<lparr>parallelism = nodes, completions = Some 3, suspend = Some True,
                   pod_template = template\<rparr>,
          status = None\<rparr>)"

section \<open>FluxMiniCluster\<close>

text \<open>
  The class overrides \<^verbatim>\<open>submit\<close> and \<^verbatim>\<open>generate\<close> only: its \<^verbatim>\<open>write_log\<close> is
  the one of \<^verbatim>\<open>KubernetesObject\<close>, whose body is \<^verbatim>\<open>pass\<close>.
\<close>

definition KubernetesObject_write_log ::
  "KubernetesObject \<Rightarrow> string \<Rightarrow> world \<Rightarrow> (error + unit) \<times> world" where
  "KubernetesObject_write_log self logfile w = (Inr (), w)"

definition FluxMiniCluster_write_log ::
  "KubernetesObject \<Rightarrow> string \<Rightarrow> world \<Rightarrow> (error + unit) \<times> world" where
  "FluxMiniCluster_write_log = KubernetesObject_write_log"

text \<open>
  \<^verbatim>\<open>submit\<close>: the create call, then \<^verbatim>\<open>self.jobname = result.metadata.name\<close> on
  the answer of the generic API, then \<^verbatim>\<open>return result\<close>. An exception leaves the
  handle as it was; the request has been sent by then.
\<close>

definition FluxMiniCluster_submit ::
  "cluster_api \<Rightarrow> KubernetesObject \<Rightarrow> MiniCluster \<Rightarrow> world
     \<Rightarrow> (error + json) \<times> KubernetesObject \<times> world" where
  "FluxMiniCluster_submit api self job_obj w =
     (let w' = send (Create_namespaced_custom_object ''flux-framework.org'' ''v1alpha1''
                       (namespace (executor_args self)) ''miniclusters'' job_obj) w in
      case create_namespaced_custom_object api ''flux-framework.org'' ''v1alpha1''
             (namespace (executor_args self)) ''miniclusters'' job_obj of
        Inl e \<Rightarrow> (Inl e, self, w')
      | Inr result \<Rightarrow>
          (case json_getattr result ''metadata'' of
             Inl e \<Rightarrow> (Inl e, self, w')
           | Inr m \<Rightarrow>
               (case json_getattr m ''name'' of
                  Inl e \<Rightarrow> (Inl e, self, w')
                | Inr n \<Rightarrow> (Inr result, self\<lparr>jobname := json_str n\<rparr>, w'))))"

definition FluxMiniCluster_generate ::
  "KubernetesObject \<Rightarrow> string \<Rightarrow> string \<Rightarrow> string list \<Rightarrow> string option \<Rightarrow> pyval
     \<Rightarrow> (string \<times> string) list option \<Rightarrow> MiniCluster" where
  "FluxMiniCluster_generate self image' command args working_dir deadline environment =
     (let deadline = dict_get (resources (job self)) ''runtime'' PNone;
          cores = dict_get (resources (job self)) ''_cores'' PNone;
          nodes = dict_get (resources (job self)) ''_nodes'' PNone;
          memory = py_or (dict_get (resources (job self)) ''kueue.memory'' (PStr ''200M1''))
                     (PStr ''200M1'');
          tasks = py_or (dict_get (resources (job self)) ''kueue.tasks'' (PInt 1)) (PInt 1);
          container = \<lparr>mc_command = command @ '' '' @ join '' '' args,
                       mc_environment = environment,
                       mc_image = image',
                       mc_resources = [(''limits'', [(''cpu'', cores), (''memory'', memory)])]\<rparr>;
          spec' = \<lparr>job_labels = [(''kueue.x-k8s.io/queue-name'', queue_name (executor_args self))],
                   mc_containers = [container],
                   mc_working_dir = working_dir,
                   mc_size = nodes,
                   mc_tasks = tasks,
                   mc_logging = [(''quiet'', False)],
                   mc_deadline = None\<rparr>;
          spec' = (if truthy deadline then spec'\<lparr>mc_deadline := Some deadline\<rparr> else spec')
      in \<lparr>mc_kind = ''MiniCluster'',
          mc_api_version = ''flux-framework.org/v1alpha1'',
          mc_metadata = \<lparr>generate_name = jobname self, labels = None,
                          meta_namespace = Some (namespace (executor_args self)),
                          meta_name = None\<rparr>,
          mc_spec = spec'\<rparr>)"

section \<open>The status mapping as the specification words it\<close>

text \<open>
  The priority order as the specification states it, to compare with \<open>status_of_job\<close>:
  failed count not 0, then active count truthy, then ready count truthy, then succeeded
  count present and equal to the declared completions, else unknown.
\<close>

definition status_as_specified :: "V1JobStatus \<Rightarrow> int option \<Rightarrow> JobStatus" where
  "status_as_specified st declared =
     (if failed st \<noteq> Some 0 then FAILED
      else if int_truthy (active st) then ACTIVE
      else if int_truthy (ready st) then READY
      else if succeeded st \<noteq> None \<and> succeeded st = declared then SUCCEEDED
      else UNKNOWN)"

section \<open>Example inputs\<close>

definition example_args :: ExecutorArgs where
  "example_args = \<lparr>namespace = ''default'', queue_name = ''user-queue''\<rparr>"

definition example_job :: Job where
  "example_job = \<lparr>name = ''align_reads'', jobid = 42,
                   resources = [''_cores'' \<mapsto> PInt 1, ''_nodes'' \<mapsto> PInt 2]\<rparr>"

text \<open>A handle as \<^verbatim>\<open>__init__\<close> leaves it, and one that carries an assigned name.\<close>

definition fresh :: KubernetesObject where
  "fresh = init example_job example_args"

definition submitted :: KubernetesObject where
  "submitted = fresh\<lparr>jobname := Some ''snakejob-align-reads-42x7k2p''\<rparr>"

definition job_with :: "V1JobStatus \<Rightarrow> int option \<Rightarrow> V1Job" where
  "job_with st declared =
     \<lparr>api_version = ''batch/v1'', kind = ''Job'',
      metadata = \<lparr>generate_name = Some ''snakejob-align-reads-42'', labels = None,
                   meta_namespace = Some ''default'',
                   meta_name = Some ''snakejob-align-reads-42x7k2p''\<rparr>,
      spec = \<lparr>parallelism = PInt 2, completions = declared, suspend = Some False,
               pod_template =
                 \<lparr>template_spec = \<lparr>containers = [], restartPolicy = ''Never''\<rparr>\<rparr>\<rparr>,
      status = Some st\<rparr>"

text \<open>
  A cluster that names a created object by its prefix and a suffix, refuses one without a
  prefix, and answers every read of a job with \<open>j\<close>. Its answer to the generic create
  call is the body as a dictionary.
\<close>

definition assign_name :: "V1ObjectMeta \<Rightarrow> string \<Rightarrow> error + V1ObjectMeta" where
  "assign_name m ns =
     (case generate_name m of
        None \<Rightarrow> Inl (ApiException ''422'')
      | Some p \<Rightarrow> Inr (m\<lparr>meta_name := Some (p @ ''x7k2p''), meta_namespace := Some ns\<rparr>))"

definition created_body :: "MiniCluster \<Rightarrow> V1ObjectMeta \<Rightarrow> json" where
  "created_body b m =
     JDict [(''apiVersion'', JStr (mc_api_version b)),
            (''kind'', JStr (mc_kind b)),
            (''metadata'',
               JDict [(''generateName'', JStr (py_str (generate_name m))),
                      (''name'', JStr (py_str (meta_name m))),
                      (''namespace'', JStr (py_str (meta_namespace m)))])]"

definition answering :: "V1Job \<Rightarrow> cluster_api" where
  "answering j =
     \<lparr>create_namespaced_job =
        (\<lambda>ns b. case assign_name (metadata b) ns of
                  Inl e \<Rightarrow> Inl e | Inr m \<Rightarrow> Inr (b\<lparr>metadata := m\<rparr>)),
      create_namespaced_custom_object =
        (\<lambda>g v ns p b. case assign_name (mc_metadata b) ns of
                  Inl e \<Rightarrow> Inl e | Inr m \<Rightarrow> Inr (created_body b m)),
      read_namespaced_job = (\<lambda>n ns. Inr j),
      list_namespaced_pod = (\<lambda>ns sel. Inr []),
      read_namespaced_pod_log = (\<lambda>n ns. Inl (ApiException ''404''))\<rparr>"

definition empty_world :: world where
  "empty_world = \<lparr>requests = [], debug_log = [], files = Map.empty\<rparr>"

definition zero_counts :: V1JobStatus where
  "zero_counts = \<lparr>failed = Some 0, active = Some 0, ready = Some 0, succeeded = Some 0\<rparr>"

text \<open>
  The objects both generators build for the fresh handle, whose task has no
  \<^verbatim>\<open>kueue.memory\<close>, and that MiniCluster object after its caller has given it
  the prefix, so that the cluster accepts it.
\<close>

definition example_v1job :: V1Job where
  "example_v1job =
     BatchJob_generate fresh ''snakemake/snakemake'' ''snakemake'' [''--cores'', ''1'']
       None PNone None"

definition example_minicluster :: MiniCluster where
  "example_minicluster =
     FluxMiniCluster_generate fresh ''snakemake/snakemake'' ''snakemake'' [''--cores'', ''1'']
       None PNone None"

definition prefixed_minicluster :: MiniCluster where
  "prefixed_minicluster =
     example_minicluster\<lparr>mc_metadata :=
       (mc_metadata example_minicluster)\<lparr>generate_name := Some ''snakejob-align-reads-42''\<rparr>\<rparr>"

section \<open>Strings: what replace and the numerals do\<close>

text \<open>Replacing a one-character string by another maps the characters one by one.\<close>

lemma py_replace_char:
  "py_replace [a] [b] s = map (\<lambda>c. if c = a then b else c) s"
proof (induction s)
  case Nil
  show ?case by (simp add: py_replace.simps)
next
  case (Cons c cs)
  have "py_replace [a] [b] (c # cs) =
          (if c = a then b # py_replace [a] [b] cs else c # py_replace [a] [b] cs)"
    by (subst py_replace.simps) simp
  with Cons show ?case by simp
qed

lemma digit_char_digit: "d < 10 \<Longrightarrow> digit_char d \<in> set ''0123456789''"
  unfolding digit_char_def by (rule nth_mem) simp

lemma str_nat_digits: "set (str_nat n) \<subseteq> set ''0123456789''"
proof (induction n rule: str_nat.induct)
  case (1 n)
  show ?case
  proof (cases "n < 10")
    case True
    then have "str_nat n = [digit_char n]" by (subst str_nat.simps) simp
    with True digit_char_digit [of n] show ?thesis by simp
  next
    case False
    then have eq: "str_nat n = str_nat (n div 10) @ [digit_char (n mod 10)]"
      by (subst str_nat.simps) simp
    have "digit_char (n mod 10) \<in> set ''0123456789''"
      by (rule digit_char_digit) simp
    with "1" False eq show ?thesis by simp
  qed
qed

lemma jobprefix_map:
  "jobprefix self =
     map (\<lambda>c. if c = CHR ''_'' then CHR ''-'' else c)
       (''snakejob-'' @ name (job self) @ ''-'' @ str_int (jobid (job self)))"
  unfolding jobprefix_def by (rule py_replace_char)

lemma jobprefix_no_underscore: "CHR ''_'' \<notin> set (jobprefix self)"
  unfolding jobprefix_map by (auto split: if_splits)

lemma jobprefix_example: "jobprefix fresh = ''snakejob-align-reads-42''"
  by (simp add: jobprefix_def fresh_def init_def example_job_def str_int_def
        str_nat.simps digit_char_def py_replace.simps)

lemma join_Cons: "join sep (x # xs) = (if xs = [] then x else x @ sep @ join sep xs)"
  by (cases xs) simp_all

section \<open>The status of a Batch-Job\<close>

text \<open>An error of the read call is raised by \<^verbatim>\<open>status()\<close> as it is.\<close>

lemma BatchJob_status_propagates:
  "read_namespaced_job api (jobname self) (namespace (executor_args self)) = Inl e \<Longrightarrow>
   BatchJob_status api self w =
     (Inl e, send (Read_namespaced_job (jobname self) (namespace (executor_args self))) w)"
  by (simp add: BatchJob_status_def Let_def)

text \<open>
  C1, as amended. For every job the cluster answers the read call with, and the native
  status it carries, \<^verbatim>\<open>BatchJob.status()\<close> returns exactly one \<open>JobStatus\<close> by this
  order, first match wins: the failed count is not equal to 0: \<open>FAILED\<close>; the active
  count is truthy: \<open>ACTIVE\<close>; the ready count is truthy: \<open>READY\<close>; the succeeded count is
  truthy (present and not 0) and equal to the job's declared completions: \<open>SUCCEEDED\<close>;
  otherwise \<open>UNKNOWN\<close>.
\<close>

theorem status_priority:
  assumes "read_namespaced_job api (jobname self) (namespace (executor_args self)) = Inr j"
    and "status j = Some st"
  shows "fst (BatchJob_status api self w) =
      Inr (if failed st \<noteq> Some 0 then FAILED
           else if int_truthy (active st) then ACTIVE
           else if int_truthy (ready st) then READY
           else if int_truthy (succeeded st) \<and> succeeded st = completions (spec j)
           then SUCCEEDED
           else UNKNOWN)"
  using assms by (auto simp add: BatchJob_status_def status_of_job_def Let_def)

text \<open>
  The three cases the specification names: failed 1 with active 1 is \<open>FAILED\<close>;
  succeeded 3 of 3 completions with the other counts 0 is \<open>SUCCEEDED\<close>; succeeded 2 of 3
  completions with the other counts 0 is \<open>UNKNOWN\<close>.
\<close>

theorem status_priority_witness:
  "fst (BatchJob_status
          (answering (job_with (zero_counts\<lparr>failed := Some 1, active := Some 1\<rparr>) (Some 3)))
          submitted empty_world) = Inr FAILED
   \<and> fst (BatchJob_status
          (answering (job_with (zero_counts\<lparr>succeeded := Some 3\<rparr>) (Some 3)))
          submitted empty_world) = Inr SUCCEEDED
   \<and> fst (BatchJob_status
          (answering (job_with (zero_counts\<lparr>succeeded := Some 2\<rparr>) (Some 3)))
          submitted empty_world) = Inr UNKNOWN"
  using
    status_priority [of "answering (job_with (zero_counts\<lparr>failed := Some 1, active := Some 1\<rparr>) (Some 3))"
      submitted "job_with (zero_counts\<lparr>failed := Some 1, active := Some 1\<rparr>) (Some 3)"
      "zero_counts\<lparr>failed := Some 1, active := Some 1\<rparr>" empty_world]
    status_priority [of "answering (job_with (zero_counts\<lparr>succeeded := Some 3\<rparr>) (Some 3))"
      submitted "job_with (zero_counts\<lparr>succeeded := Some 3\<rparr>) (Some 3)"
      "zero_counts\<lparr>succeeded := Some 3\<rparr>" empty_world]
    status_priority [of "answering (job_with (zero_counts\<lparr>succeeded := Some 2\<rparr>) (Some 3))"
      submitted "job_with (zero_counts\<lparr>succeeded := Some 2\<rparr>) (Some 3)"
      "zero_counts\<lparr>succeeded := Some 2\<rparr>" empty_world]
  by (simp add: answering_def job_with_def zero_counts_def)

text \<open>
  The claim as the specification words it fails on a job that declares 0 completions and
  reports 0 succeeded, with the failed count 0 and no active or ready pod: the succeeded
  count is present and equal to the completions, yet the truth test on it fails and the
  answer is \<open>UNKNOWN\<close>.
\<close>

theorem status_priority_counterexample:
  "fst (BatchJob_status
          (answering (job_with \<lparr>failed = Some 0, active = None, ready = None,
                                succeeded = Some 0\<rparr> (Some 0)))
          submitted empty_world) = Inr UNKNOWN
   \<and> status_as_specified \<lparr>failed = Some 0, active = None, ready = None,
                           succeeded = Some 0\<rparr> (Some 0) = SUCCEEDED"
  by (simp add: BatchJob_status_def status_of_job_def status_as_specified_def
        answering_def job_with_def Let_def)

text \<open>
  C8. For every native job status in which the failed count is absent,
  \<^verbatim>\<open>BatchJob.status()\<close> returns \<open>FAILED\<close>, whatever the other counts are: an absent
  count is not equal to 0.
\<close>

theorem absent_failed_count:
  assumes "read_namespaced_job api (jobname self) (namespace (executor_args self)) = Inr j"
    and "status j = Some st"
    and "failed st = None"
  shows "fst (BatchJob_status api self w) = Inr FAILED"
  using assms by (simp add: BatchJob_status_def status_of_job_def Let_def)

text \<open>With 3 succeeded of 3 declared completions and the failed count absent.\<close>

theorem absent_failed_count_witness:
  "fst (BatchJob_status
          (answering (job_with \<lparr>failed = None, active = None, ready = None,
                                succeeded = Some 3\<rparr> (Some 3)))
          submitted empty_world) = Inr FAILED"
  using absent_failed_count [of
      "answering (job_with \<lparr>failed = None, active = None, ready = None,
                            succeeded = Some 3\<rparr> (Some 3))"
      submitted
      "job_with \<lparr>failed = None, active = None, ready = None, succeeded = Some 3\<rparr> (Some 3)"
      "\<lparr>failed = None, active = None, ready = None, succeeded = Some 3\<rparr>" empty_world]
  by (simp add: answering_def job_with_def)

section \<open>The generators\<close>

lemma BatchJob_generate_name:
  "generate_name (metadata
     (BatchJob_generate self image' command args working_dir deadline environment)) =
   Some (jobprefix self)"
  by (simp add: BatchJob_generate_def Let_def)

lemma FluxMiniCluster_generate_name:
  "generate_name (mc_metadata
     (FluxMiniCluster_generate self image' command args working_dir deadline environment)) =
   jobname self"
  by (simp add: FluxMiniCluster_generate_def Let_def)

text \<open>
  A task without \<^verbatim>\<open>kueue.memory\<close>, or with a falsy value for it, gets the default
  of the generator: \<^verbatim>\<open>"200Mi"\<close> among the requests of the Batch-Job container,
  \<^verbatim>\<open>"200M1"\<close> among the limits of the MiniCluster container.
\<close>

lemma py_or_default:
  "(case d ''kueue.memory'' of None \<Rightarrow> True | Some v \<Rightarrow> \<not> truthy v) \<Longrightarrow>
   py_or (dict_get d ''kueue.memory'' (PStr m)) (PStr m) = PStr m"
  by (auto simp add: py_or_def dict_get_def split: option.splits)

lemma BatchJob_default_memory:
  assumes "case resources (job self) ''kueue.memory'' of None \<Rightarrow> True | Some v \<Rightarrow> \<not> truthy v"
  shows "map container_resources (containers (template_spec (pod_template (spec
           (BatchJob_generate self image' command args working_dir deadline environment))))) =
         [[(''requests'', [(''cpu'', dict_get (resources (job self)) ''_cores'' PNone),
                           (''memory'', PStr ''200Mi'')])]]"
  using assms py_or_default [of "resources (job self)" "''200Mi''"]
  by (simp add: BatchJob_generate_def Let_def)

lemma FluxMiniCluster_default_memory:
  assumes "case resources (job self) ''kueue.memory'' of None \<Rightarrow> True | Some v \<Rightarrow> \<not> truthy v"
  shows "map mc_resources (mc_containers (mc_spec
           (FluxMiniCluster_generate self image' command args working_dir deadline environment))) =
         [[(''limits'', [(''cpu'', dict_get (resources (job self)) ''_cores'' PNone),
                         (''memory'', PStr ''200M1'')])]]"
  using assms py_or_default [of "resources (job self)" "''200M1''"]
  by (simp add: FluxMiniCluster_generate_def Let_def)

text \<open>
  C2, at a task with cores and nodes and no \<^verbatim>\<open>kueue.memory\<close>: the Batch-Job
  generator puts the default \<^verbatim>\<open>"200Mi"\<close> into the requests of its container; the
  MiniCluster generator puts \<^verbatim>\<open>"200M1"\<close> into the limits of its container, and has
  no requests.
\<close>

theorem default_memory_of_both_generators:
  "map container_resources (containers (template_spec (pod_template (spec example_v1job)))) =
     [[(''requests'', [(''cpu'', PInt 1), (''memory'', PStr ''200Mi'')])]]
   \<and> map mc_resources (mc_containers (mc_spec example_minicluster)) =
     [[(''limits'', [(''cpu'', PInt 1), (''memory'', PStr ''200M1'')])]]"
  by (simp add: example_v1job_def example_minicluster_def BatchJob_generate_def
        FluxMiniCluster_generate_def fresh_def init_def example_job_def
        dict_get_def py_or_def Let_def)

text \<open>
  C3, at the task named \<^verbatim>\<open>align_reads\<close> with id 42, on a handle that has not
  submitted: the Batch-Job object carries the prefix \<^verbatim>\<open>snakejob-align-reads-42\<close>;
  the MiniCluster object carries \<^verbatim>\<open>self.jobname\<close>, which is \<^verbatim>\<open>None\<close>.
\<close>

theorem generate_name_of_both_generators:
  "generate_name (metadata example_v1job) = Some ''snakejob-align-reads-42''
   \<and> generate_name (mc_metadata example_minicluster) = None"
  by (simp add: example_v1job_def example_minicluster_def BatchJob_generate_name
        FluxMiniCluster_generate_name jobprefix_example)
    (simp add: fresh_def init_def)

text \<open>
  C4. For every task and every choice of the execution parameters, the Batch-Job object
  of \<^verbatim>\<open>generate()\<close> has completions 3, suspend true, parallelism the value of the
  task's nodes resource (\<^verbatim>\<open>resources.get("_nodes")\<close>) and a pod template of one
  container with restart policy \<^verbatim>\<open>Never\<close>.
\<close>

theorem BatchJob_generate_policy:
  "(let g = BatchJob_generate self image' command args working_dir deadline environment in
      completions (spec g) = Some 3
    \<and> suspend (spec g) = Some True
    \<and> parallelism (spec g) = dict_get (resources (job self)) ''_nodes'' PNone
    \<and> restartPolicy (template_spec (pod_template (spec g))) = ''Never''
    \<and> length (containers (template_spec (pod_template (spec g)))) = 1)"
  by (simp add: BatchJob_generate_def Let_def)

text \<open>
  C5. For every command string (the non-empty ones among them) and every sequence of
  argument strings, empty or not, the MiniCluster object has one container, whose command
  is the one string \<^verbatim>\<open>command + " " + " ".join(args)\<close>.
\<close>

theorem FluxMiniCluster_command:
  "map mc_command (mc_containers (mc_spec
     (FluxMiniCluster_generate self image' command args working_dir deadline environment))) =
   [command @ '' '' @ join '' '' args]"
  by (simp add: FluxMiniCluster_generate_def Let_def)

lemma minicluster_command_examples:
  "map mc_command (mc_containers (mc_spec example_minicluster)) = [''snakemake --cores 1'']"
  "map mc_command (mc_containers (mc_spec
     (FluxMiniCluster_generate fresh ''snakemake/snakemake'' ''snakemake'' [] None PNone None))) =
   [''snakemake '']"
  by (simp_all add: example_minicluster_def FluxMiniCluster_generate_def Let_def)

text \<open>
  C9. The object of either generator does not depend on the argument \<open>deadline\<close>: two
  calls that differ in it alone build the same object, and the deadline field is the
  task's \<^verbatim>\<open>runtime\<close> resource when that is truthy and unset otherwise.
\<close>

theorem generate_ignores_deadline:
  "BatchJob_generate self image' command args working_dir d1 environment =
   BatchJob_generate self image' command args working_dir d2 environment
   \<and> FluxMiniCluster_generate self image' command args working_dir d1 environment =
     FluxMiniCluster_generate self image' command args working_dir d2 environment
   \<and> map active_deadline_seconds (containers (template_spec (pod_template (spec
        (BatchJob_generate self image' command args working_dir d1 environment))))) =
     [if truthy (dict_get (resources (job self)) ''runtime'' PNone)
      then Some (dict_get (resources (job self)) ''runtime'' PNone) else None]
   \<and> mc_deadline (mc_spec
        (FluxMiniCluster_generate self image' command args working_dir d1 environment)) =
     (if truthy (dict_get (resources (job self)) ''runtime'' PNone)
      then Some (dict_get (resources (job self)) ''runtime'' PNone) else None)"
  by (simp add: BatchJob_generate_def FluxMiniCluster_generate_def Let_def)

section \<open>Submission\<close>

text \<open>
  When the typed API answers with the created job, \<^verbatim>\<open>BatchJob.submit\<close> has sent
  the object it was given, the handle's \<^verbatim>\<open>jobname\<close> is the name of the created
  job, and the created job is returned.
\<close>

lemma BatchJob_submit_created:
  "create_namespaced_job api (namespace (executor_args self)) job_obj = Inr result \<Longrightarrow>
   BatchJob_submit api self job_obj w =
     (Inr result, self\<lparr>jobname := meta_name (metadata result)\<rparr>,
      send (Create_namespaced_job (namespace (executor_args self)) job_obj) w)"
  by (simp add: BatchJob_submit_def Let_def)

text \<open>
  When the generic API answers with the created object, \<^verbatim>\<open>FluxMiniCluster.submit\<close>
  has sent the object it was given, and then raises on \<^verbatim>\<open>result.metadata\<close>: the
  handle is as it was and nothing is returned.
\<close>

lemma FluxMiniCluster_submit_created:
  "create_namespaced_custom_object api ''flux-framework.org'' ''v1alpha1''
     (namespace (executor_args self)) ''miniclusters'' mc = Inr result \<Longrightarrow>
   FluxMiniCluster_submit api self mc w =
     (Inl (AttributeError ''metadata''), self,
      send (Create_namespaced_custom_object ''flux-framework.org'' ''v1alpha1''
              (namespace (executor_args self)) ''miniclusters'' mc) w)"
  by (simp add: FluxMiniCluster_submit_def Let_def)

lemma FluxMiniCluster_submit_handle:
  "fst (snd (FluxMiniCluster_submit api self mc w)) = self"
  by (simp add: FluxMiniCluster_submit_def Let_def split: sum.splits)

lemma FluxMiniCluster_submit_raises:
  "fst (FluxMiniCluster_submit api self mc w) \<noteq> Inr result"
  by (simp add: FluxMiniCluster_submit_def Let_def split: sum.splits)

text \<open>
  C6, on the cluster that appends \<^verbatim>\<open>x7k2p\<close> to the prefix. The fresh Batch-Job
  handle submits the object generated for it: the create request is sent, the created job
  is returned and its name is the handle's \<^verbatim>\<open>jobname\<close>. The fresh MiniCluster
  handle submits the MiniCluster object that carries the prefix: the create request is
  sent to the custom-object API and the cluster creates the object, then
  \<^verbatim>\<open>result.metadata\<close> raises \<^verbatim>\<open>AttributeError\<close>; no created object is
  returned and the handle's \<^verbatim>\<open>jobname\<close> is still \<^verbatim>\<open>None\<close>.
\<close>

theorem submit_of_both_variants:
  "fst (BatchJob_submit (answering (job_with zero_counts (Some 3)))
          fresh example_v1job empty_world) =
     Inr (example_v1job\<lparr>metadata := (metadata example_v1job)
            \<lparr>meta_name := Some ''snakejob-align-reads-42x7k2p'',
             meta_namespace := Some ''default''\<rparr>\<rparr>)
   \<and> jobname (fst (snd (BatchJob_submit (answering (job_with zero_counts (Some 3)))
                        fresh example_v1job empty_world))) =
     Some ''snakejob-align-reads-42x7k2p''
   \<and> requests (snd (snd (BatchJob_submit (answering (job_with zero_counts (Some 3)))
                        fresh example_v1job empty_world))) =
     [Create_namespaced_job ''default'' example_v1job]
   \<and> create_namespaced_custom_object (answering (job_with zero_counts (Some 3)))
        ''flux-framework.org'' ''v1alpha1'' ''default'' ''miniclusters'' prefixed_minicluster =
     Inr (JDict [(''apiVersion'', JStr ''flux-framework.org/v1alpha1''),
                 (''kind'', JStr ''MiniCluster''),
                 (''metadata'',
                    JDict [(''generateName'', JStr ''snakejob-align-reads-42''),
                           (''name'', JStr ''snakejob-align-reads-42x7k2p''),
                           (''namespace'', JStr ''default'')])])
   \<and> fst (FluxMiniCluster_submit (answering (job_with zero_counts (Some 3)))
          fresh prefixed_minicluster empty_world) =
     Inl (AttributeError ''metadata'')
   \<and> jobname (fst (snd (FluxMiniCluster_submit (answering (job_with zero_counts (Some 3)))
                        fresh prefixed_minicluster empty_world))) = None
   \<and> requests (snd (snd (FluxMiniCluster_submit (answering (job_with zero_counts (Some 3)))
                        fresh prefixed_minicluster empty_world))) =
     [Create_namespaced_custom_object ''flux-framework.org'' ''v1alpha1'' ''default''
        ''miniclusters'' prefixed_minicluster]"
proof -
  let ?api = "answering (job_with zero_counts (Some 3))"
  let ?r = "example_v1job\<lparr>metadata := (metadata example_v1job)
              \<lparr>meta_name := Some ''snakejob-align-reads-42x7k2p'',
               meta_namespace := Some ''default''\<rparr>\<rparr>"
  let ?c = "JDict [(''apiVersion'', JStr ''flux-framework.org/v1alpha1''),
                   (''kind'', JStr ''MiniCluster''),
                   (''metadata'',
                      JDict [(''generateName'', JStr ''snakejob-align-reads-42''),
                             (''name'', JStr ''snakejob-align-reads-42x7k2p''),
                             (''namespace'', JStr ''default'')])]"
  have ns: "namespace (executor_args fresh) = ''default''"
    by (simp add: fresh_def init_def example_args_def)
  have none: "jobname fresh = None"
    by (simp add: fresh_def init_def)
  have a: "create_namespaced_job ?api (namespace (executor_args fresh)) example_v1job = Inr ?r"
    by (simp add: ns answering_def assign_name_def example_v1job_def BatchJob_generate_name
          jobprefix_example)
  have b: "create_namespaced_custom_object ?api ''flux-framework.org'' ''v1alpha1''
             (namespace (executor_args fresh)) ''miniclusters'' prefixed_minicluster = Inr ?c"
    by (simp add: ns answering_def assign_name_def created_body_def prefixed_minicluster_def
          example_minicluster_def FluxMiniCluster_generate_def Let_def)
  from BatchJob_submit_created [OF a, of empty_world]
       FluxMiniCluster_submit_created [OF b, of empty_world] b none
  show ?thesis
    by (simp add: ns send_def empty_world_def)
qed

section \<open>Logs\<close>

text \<open>The loop of \<^verbatim>\<open>BatchJob.write_log\<close> only adds to the requests.\<close>

lemma write_pod_logs_requests:
  "\<exists>rs. requests (snd (write_pod_logs api self logprefix pods w)) = requests w @ rs"
proof (induction pods arbitrary: w)
  case Nil
  show ?case by simp
next
  case (Cons pod pods)
  show ?case
  proof (cases "read_namespaced_pod_log api (meta_name (pod_metadata pod))
                  (namespace (executor_args self))")
    case (Inl e)
    then show ?thesis by (simp add: send_def Let_def)
  next
    case (Inr log)
    let ?w3 = "write_file log
                 (logprefix @ ''-'' @ py_str (meta_name (pod_metadata pod)) @ ''.txt'')
                 (logger_debug (''Writing output to '' @ logprefix @ ''-'' @
                                  py_str (meta_name (pod_metadata pod)) @ ''.txt'')
                    (send (Read_namespaced_pod_log (meta_name (pod_metadata pod))
                             (namespace (executor_args self))) w))"
    from Cons.IH [of ?w3] obtain rs where
      "requests (snd (write_pod_logs api self logprefix pods ?w3)) = requests ?w3 @ rs" ..
    with Inr show ?thesis
      by (simp add: send_def logger_debug_def write_file_def Let_def)
  qed
qed

text \<open>\<^verbatim>\<open>BatchJob.write_log\<close> always lists the pods of the job.\<close>

lemma BatchJob_write_log_lists_pods:
  "\<exists>rs. requests (snd (BatchJob_write_log api self logprefix w)) =
     requests w @ List_namespaced_pod (namespace (executor_args self))
                    (''job-name='' @ py_str (jobname self)) # rs"
proof (cases "list_namespaced_pod api (namespace (executor_args self))
                (''job-name='' @ py_str (jobname self))")
  case (Inl e)
  then show ?thesis by (simp add: BatchJob_write_log_def send_def Let_def)
next
  case (Inr pods)
  from write_pod_logs_requests [of api self logprefix pods
      "send (List_namespaced_pod (namespace (executor_args self))
               (''job-name='' @ py_str (jobname self))) w"]
  obtain rs where
    "requests (snd (write_pod_logs api self logprefix pods
       (send (List_namespaced_pod (namespace (executor_args self))
                (''job-name='' @ py_str (jobname self))) w))) =
     requests (send (List_namespaced_pod (namespace (executor_args self))
                (''job-name='' @ py_str (jobname self))) w) @ rs" ..
  with Inr show ?thesis by (simp add: BatchJob_write_log_def send_def Let_def)
qed

text \<open>With no pod of the job, it writes no file and raises nothing.\<close>

lemma BatchJob_write_log_no_pods:
  "list_namespaced_pod api (namespace (executor_args self))
     (''job-name='' @ py_str (jobname self)) = Inr [] \<Longrightarrow>
   BatchJob_write_log api self logprefix w =
     (Inr (), send (List_namespaced_pod (namespace (executor_args self))
                      (''job-name='' @ py_str (jobname self))) w)"
  by (simp add: BatchJob_write_log_def Let_def)

text \<open>
  C10. For every log prefix, every handle and every world,
  \<^verbatim>\<open>FluxMiniCluster.write_log\<close> is the inherited method whose body is
  \<^verbatim>\<open>pass\<close>: it returns with the world as it was, so it has sent no request (no pod
  listed, no log read), logged nothing and written no file.
\<close>

theorem FluxMiniCluster_write_log_noop:
  "FluxMiniCluster_write_log self logprefix w = (Inr (), w)
   \<and> requests (snd (FluxMiniCluster_write_log self logprefix w)) = requests w
   \<and> debug_log (snd (FluxMiniCluster_write_log self logprefix w)) = debug_log w
   \<and> files (snd (FluxMiniCluster_write_log self logprefix w)) = files w"
  by (simp add: FluxMiniCluster_write_log_def KubernetesObject_write_log_def)

end
